theory Spec2Isabelle
  imports Main "HOL-Library.Sublist"
begin

section \<open>Text: the string operations the script applies to headers\<close>

text \<open>
  Strings are lists of code points below 256 (\<^typ>\<open>char\<close> read as Latin-1). On these
  \<open>str.lower\<close> works character by character: it maps \<open>A\<close>..\<open>Z\<close> (65..90) and the
  accented capitals 192..214 and 216..222 to the code 32 above and keeps every other
  character. \<open>str.strip\<close> removes the leading and trailing characters for which
  \<open>str.isspace\<close> holds: the codes 9..13, 28..32, 133 and 160. The operator \<open>a in b\<close> on
  strings is contiguous containment, which is \<^const>\<open>sublist\<close>.
\<close>

definition isspace :: "char \<Rightarrow> bool" where
  "isspace c =
     (let n = (of_char c :: nat)
      in (9 \<le> n \<and> n \<le> 13) \<or> (28 \<le> n \<and> n \<le> 32) \<or> n = 133 \<or> n = 160)"

definition lower_char :: "char \<Rightarrow> char" where
  "lower_char c =
     (let n = (of_char c :: nat)
      in if (65 \<le> n \<and> n \<le> 90) \<or> (192 \<le> n \<and> n \<le> 214) \<or> (216 \<le> n \<and> n \<le> 222)
         then char_of (n + 32) else c)"

definition lower :: "string \<Rightarrow> string" where
  "lower s = map lower_char s"

definition strip :: "string \<Rightarrow> string" where
  "strip s = rev (dropWhile isspace (rev (dropWhile isspace s)))"

definition endswith :: "string \<Rightarrow> string \<Rightarrow> bool" where
  "endswith s suffix_str = suffix suffix_str s"

section \<open>Tables\<close>

text \<open>
  A DataFrame is a list of column labels and a list of rows, one cell per column. A cell
  holds a number, a piece of text, or the missing value \<open>NaN\<close>. The numbers themselves are
  a type parameter: no property below depends on their arithmetic. A label is a string
  or, where the header cell of the sheet was not text, the value of that cell (pandas
  keeps a number or a date as the label).
\<close>

datatype 'n cell = Num 'n | Text string | NaN

datatype 'n label = TextLabel string | NonText 'n

record 'n table =
  columns :: "'n label list"
  rows :: "'n cell list list"

definition df_empty :: "'n table \<Rightarrow> bool" where
  \<comment> \<open>\<open>df.empty\<close>: some axis has length 0\<close>
  "df_empty df = (columns df = [] \<or> rows df = [])"


section \<open>The plot function\<close>

text \<open>
  The model follows \<open>create_rheology_plot\<close> line by line. Drawing is recorded, not
  performed: \<open>ax.plot\<close> appends a line to the state, and what matplotlib does with it
  (rendering, its own exceptions) is outside the model. The exception the function
  itself can raise is the one of line 29: \<open>c.strip()\<close> on a label that is not a string.
\<close>

datatype py_error = AttributeError

fun normalized_labels :: "'n label list \<Rightarrow> py_error + string list" where
  \<comment> \<open>\<open>[c.strip().lower() for c in df.columns]\<close>\<close>
  "normalized_labels [] = Inr []"
| "normalized_labels (TextLabel c # cs) =
     (case normalized_labels cs of
        Inl e \<Rightarrow> Inl e
      | Inr names \<Rightarrow> Inr (lower (strip c) # names))"
| "normalized_labels (NonText v # cs) = Inl AttributeError"

definition normalize_columns :: "'n table \<Rightarrow> py_error + 'n table" where
  \<comment> \<open>\<open>df.columns = [c.strip().lower() for c in df.columns]\<close>: when the comprehension
      raises, nothing is assigned\<close>
  "normalize_columns df =
     (case normalized_labels (columns df) of
        Inl e \<Rightarrow> Inl e
      | Inr names \<Rightarrow> Inr (df\<lparr>columns := map TextLabel names\<rparr>))"

definition next_match :: "string \<Rightarrow> string list \<Rightarrow> string option" where
  \<comment> \<open>\<open>next((c for c in cols if target in c), None)\<close>\<close>
  "next_match target cols = find (\<lambda>c. sublist target c) cols"

definition resolve_column :: "string list \<Rightarrow> string \<Rightarrow> string option" where
  \<comment> \<open>lines 29 to 34 for one axis, on labels that are strings: the labels are stripped
      and lowercased, the target is lowercased, and the first label containing the
      target is taken\<close>
  "resolve_column cols target = next_match (lower target) (map (\<lambda>c. lower (strip c)) cols)"

fun truthy :: "string option \<Rightarrow> bool" where
  \<comment> \<open>Python truth value of \<open>actual_x_col\<close>: \<open>None\<close> and the empty string are false\<close>
  "truthy None = False"
| "truthy (Some c) = (c \<noteq> [])"







datatype scale = Linear | Log



section \<open>The loader\<close>

text \<open>
  The pandas functions the script calls are outside the repository. What the script needs
  of them is collected in a record: the reader of a file's bytes under an engine (a
  workbook is a list of sheets, a sheet a list of rows of cells), the labels pandas gives
  to a header row, the strings \<open>read_excel\<close> takes for missing values, and the parser
  \<open>pd.to_numeric\<close> applies to a piece of text.
\<close>

datatype engine = Openpyxl | Xlrd

record 'b uploaded_file =
  file_name :: string
  file_bytes :: 'b

datatype ('e, 'n) load_error =
  ReaderError 'e
| SheetIndexError
| HeaderIndexError
| NotASeries "'n label"

record ('b, 'e, 'n) pandas =
  open_workbook :: "engine \<Rightarrow> 'b \<Rightarrow> 'e + 'n cell list list list"
  header_names :: "'n cell list \<Rightarrow> 'n label list"
  na_values :: "string \<Rightarrow> bool"
  parse_number :: "string \<Rightarrow> 'n option"

definition fit_row :: "nat \<Rightarrow> 'n cell list \<Rightarrow> 'n cell list" where
  \<comment> \<open>a DataFrame row has exactly one cell per column: a short row is filled with
      \<open>NaN\<close>, cells beyond the last label are left out. On the rectangular sheets the
      readers deliver, with one label per header cell, this changes nothing.\<close>
  "fit_row n r = take n (r @ replicate (n - length r) NaN)"

fun na_cell :: "(string \<Rightarrow> bool) \<Rightarrow> 'n cell \<Rightarrow> 'n cell" where
  \<comment> \<open>the default \<open>na_values\<close> of \<open>read_excel\<close>: a data cell whose text is one of them
      is read as \<open>NaN\<close>\<close>
  "na_cell na (Text s) = (if na s then NaN else Text s)"
| "na_cell na (Num x) = Num x"
| "na_cell na NaN = NaN"

text \<open>
  \<open>pd.read_excel(io, engine=engine, sheet_name=s, header=h)\<close> for integers \<open>s\<close> and \<open>h\<close>:
  the sheet at position \<open>s\<close>, its row \<open>h\<close> as the labels, the rows after it as the data.
  A sheet without any row gives the DataFrame without columns and rows. A failure of
  the reader, a sheet position out of range, and a header position beyond the rows of a
  sheet that has rows, are exceptions.
\<close>

definition read_excel ::
  "('b, 'e, 'n) pandas \<Rightarrow> 'b \<Rightarrow> engine \<Rightarrow> nat \<Rightarrow> nat \<Rightarrow> ('e, 'n) load_error + 'n table"
where
  "read_excel P io engine sheet_name header =
     (case open_workbook P engine io of
        Inl e \<Rightarrow> Inl (ReaderError e)
      | Inr wb \<Rightarrow>
          if length wb \<le> sheet_name then Inl SheetIndexError
          else
            let sheet = wb ! sheet_name in
              if sheet = [] then Inr \<lparr>columns = [], rows = []\<rparr>
              else if length sheet \<le> header then Inl HeaderIndexError
              else
                let names = header_names P (sheet ! header) in
                  Inr \<lparr>columns = names,
                       rows = map (\<lambda>r. map (na_cell (na_values P)) (fit_row (length names) r))
                                (drop (header + 1) sheet)\<rparr>)"

fun to_numeric :: "(string \<Rightarrow> 'n option) \<Rightarrow> 'n cell \<Rightarrow> 'n cell" where
  \<comment> \<open>\<open>pd.to_numeric(..., errors='coerce')\<close> on one cell\<close>
  "to_numeric p (Num x) = Num x"
| "to_numeric p (Text s) = (case p s of Some x \<Rightarrow> Num x | None \<Rightarrow> NaN)"
| "to_numeric p NaN = NaN"

fun index_of :: "'a \<Rightarrow> 'a list \<Rightarrow> nat" where
  "index_of a [] = 0"
| "index_of a (x # xs) = (if x = a then 0 else Suc (index_of a xs))"

text \<open>
  \<open>for col in df_processed.columns: df_processed[col] = pd.to_numeric(df_processed[col],
  errors='coerce')\<close>. When the label \<open>col\<close> stands over more than one column,
  \<open>df_processed[col]\<close> is a DataFrame and \<open>pd.to_numeric\<close> raises.
\<close>

fun convert_columns ::
  "(string \<Rightarrow> 'n option) \<Rightarrow> 'n label list \<Rightarrow> 'n table \<Rightarrow> ('e, 'n) load_error + 'n table"
where
  "convert_columns p [] df = Inr df"
| "convert_columns p (col # cols) df =
     (if length (filter (\<lambda>c. c = col) (columns df)) \<noteq> 1 then Inl (NotASeries col)
      else
        let i = index_of col (columns df) in
          convert_columns p cols
            (df\<lparr>rows := map (\<lambda>r. r[i := to_numeric p (r ! i)]) (rows df)\<rparr>))"

definition dropna :: "'n table \<Rightarrow> 'n table" where
  \<comment> \<open>\<open>df.dropna(inplace=True)\<close>: rows with a missing value in any column go\<close>
  "dropna df = df\<lparr>rows := filter (\<lambda>r. NaN \<notin> set r) (rows df)\<rparr>"

definition head :: "'n table \<Rightarrow> 'n table" where
  \<comment> \<open>\<open>df.head()\<close>: a new DataFrame of the first five rows\<close>
  "head df = df\<lparr>rows := take 5 (rows df)\<rparr>"

definition engine_for :: "string \<Rightarrow> engine" where
  "engine_for name = (if endswith (lower name) ''.xlsx'' then Openpyxl else Xlrd)"

text \<open>The body of the \<open>try\<close> block up to \<open>dropna\<close>: \<open>df_original\<close> and \<open>df_processed\<close>.\<close>

definition load_file ::
  "('b, 'e, 'n) pandas \<Rightarrow> 'b uploaded_file \<Rightarrow> ('e, 'n) load_error + ('n table \<times> 'n table)"
where
  "load_file P uploaded_file =
     (let engine = engine_for (file_name uploaded_file) in
        case read_excel P (file_bytes uploaded_file) engine 1 1 of
          Inl e \<Rightarrow> Inl e
        | Inr df_original \<Rightarrow>
            let df_processed = df_original\<lparr>rows := drop 1 (rows df_original)\<rparr> in
              case convert_columns (parse_number P) (columns df_processed) df_processed of
                Inl e \<Rightarrow> Inl e
              | Inr df_numeric \<Rightarrow> Inr (df_original, dropna df_numeric))"

record 'n debug_entry =
  debug_name :: string
  original_columns :: "'n label list"
  original_head :: "'n table"
  processed_head :: "'n table"
  processed_dtypes :: "'n label list"

text \<open>
  The state of the upload loop: the samples, the debugging entries, and the messages
  \<open>st.error\<close> has shown (the file's name and the exception). Of \<open>processed_dtypes\<close> the
  model keeps the keys, the column labels.
\<close>

record ('e, 'n) session =
  dataframes :: "('n table \<times> string) list"
  debug_info :: "'n debug_entry list"
  shown_errors :: "(string \<times> ('e, 'n) load_error) list"

definition new_session :: "('e, 'n) session" where
  "new_session = \<lparr>dataframes = [], debug_info = [], shown_errors = []\<rparr>"

definition process_file ::
  "('b, 'e, 'n) pandas \<Rightarrow> 'b uploaded_file \<Rightarrow> ('e, 'n) session \<Rightarrow> ('e, 'n) session"
where
  "process_file P uploaded_file s =
     (case load_file P uploaded_file of
        Inl e \<Rightarrow> s\<lparr>shown_errors := shown_errors s @ [(file_name uploaded_file, e)]\<rparr>
      | Inr (df_original, df_processed) \<Rightarrow>
          s\<lparr>dataframes := dataframes s @ [(df_processed, file_name uploaded_file)],
            debug_info := debug_info s @
              [\<lparr>debug_name = file_name uploaded_file,
                original_columns = columns df_original,
                original_head = head df_original,
                processed_head = head df_processed,
                processed_dtypes = columns df_processed\<rparr>]\<rparr>)"

fun upload_loop ::
  "('b, 'e, 'n) pandas \<Rightarrow> 'b uploaded_file list \<Rightarrow> ('e, 'n) session \<Rightarrow> ('e, 'n) session"
where
  "upload_loop P [] s = s"
| "upload_loop P (uploaded_file # rest) s = upload_loop P rest (process_file P uploaded_file s)"

section \<open>The page\<close>

datatype metric = frequency | g_prime | g_double_prime | complex_viscosity








section \<open>Notions used in the statements\<close>

text \<open>
  A sample is resolved for a pair of targets when line 29 does not raise on it and the
  \<open>if actual_x_col and actual_y_col\<close> test succeeds. A sample whose table is not empty
  and which is not resolved stops the loop: it is raising when line 29 raises on it (a
  label is not a string), and blocking when the test fails, so that the loop returns
  \<open>None, None\<close> there.
\<close>

definition resolved :: "string \<Rightarrow> string \<Rightarrow> 'n table \<Rightarrow> bool" where
  "resolved x_col y_col df =
     (case normalized_labels (columns df) of
        Inl e \<Rightarrow> False
      | Inr names \<Rightarrow>
          truthy (next_match (lower x_col) names) \<and> truthy (next_match (lower y_col) names))"

definition raising :: "'n table \<times> string \<Rightarrow> bool" where
  "raising s = (\<not> df_empty (fst s) \<and> isl (normalized_labels (columns (fst s))))"

definition blocking :: "string \<Rightarrow> string \<Rightarrow> 'n table \<times> string \<Rightarrow> bool" where
  "blocking x_col y_col s =
     (\<not> df_empty (fst s) \<and> \<not> isl (normalized_labels (columns (fst s))) \<and>
      \<not> resolved x_col y_col (fst s))"


text \<open>What one pass of the loop does to a sample, and the line it draws for it.\<close>

definition touch :: "'n table \<times> string \<Rightarrow> 'n table \<times> string" where
  "touch s =
     (if df_empty (fst s) then s
      else case normalize_columns (fst s) of
             Inl e \<Rightarrow> s
           | Inr df' \<Rightarrow> (df', snd s))"



text \<open>What the upload loop adds to the session for a list of files.\<close>

definition loaded_samples ::
  "('b, 'e, 'n) pandas \<Rightarrow> 'b uploaded_file list \<Rightarrow> ('n table \<times> string) list" where
  "loaded_samples P fs =
     concat (map (\<lambda>f. case load_file P f of
                         Inl e \<Rightarrow> []
                       | Inr (df_original, df_processed) \<Rightarrow> [(df_processed, file_name f)]) fs)"

definition load_failures ::
  "('b, 'e, 'n) pandas \<Rightarrow> 'b uploaded_file list \<Rightarrow> (string \<times> ('e, 'n) load_error) list" where
  "load_failures P fs =
     concat (map (\<lambda>f. case load_file P f of
                         Inl e \<Rightarrow> [(file_name f, e)]
                       | Inr loaded \<Rightarrow> []) fs)"

definition debug_entries ::
  "('b, 'e, 'n) pandas \<Rightarrow> 'b uploaded_file list \<Rightarrow> 'n debug_entry list" where
  "debug_entries P fs =
     concat (map (\<lambda>f. case load_file P f of
                         Inl e \<Rightarrow> []
                       | Inr (df_original, df_processed) \<Rightarrow>
                           [\<lparr>debug_name = file_name f,
                             original_columns = columns df_original,
                             original_head = head df_original,
                             processed_head = head df_processed,
                             processed_dtypes = columns df_processed\<rparr>]) fs)"

section \<open>Example data\<close>

text \<open>
  A reader for the examples: the bytes of a file are the workbook they encode, and an
  empty list of sheets stands for a file that is no workbook. A header cell that holds
  text gives that text as the label, with the suffix \<open>.k\<close> at its \<open>k\<close>-th repetition; a
  number is kept as the label; an empty header cell at position \<open>k\<close> is labelled
  \<open>Unnamed: k\<close>. The strings read as missing values are \<open>n/a\<close>, \<open>NA\<close>, \<open>NaN\<close> and the
  empty string, and the only text that parses as a number is \<open>7\<close>.
\<close>

function show_nat :: "nat \<Rightarrow> string" where
  "show_nat n =
     (if n < 10 then [char_of (48 + n)]
      else show_nat (n div 10) @ [char_of (48 + n mod 10)])"
  by pat_completeness auto
termination
  by (relation "measure id") auto

fun demo_labels :: "nat \<Rightarrow> string list \<Rightarrow> int cell list \<Rightarrow> int label list" where
  "demo_labels k seen [] = []"
| "demo_labels k seen (Num v # cs) = NonText v # demo_labels (Suc k) seen cs"
| "demo_labels k seen (NaN # cs) =
     TextLabel (''Unnamed: '' @ show_nat k) # demo_labels (Suc k) seen cs"
| "demo_labels k seen (Text s # cs) =
     TextLabel (if count_list seen s = 0 then s else s @ ''.'' @ show_nat (count_list seen s))
       # demo_labels (Suc k) (s # seen) cs"

definition demo_pandas :: "(int cell list list list, string, int) pandas" where
  "demo_pandas =
     \<lparr>open_workbook = (\<lambda>engine bytes. if bytes = [] then Inl ''not a workbook'' else Inr bytes),
      header_names = demo_labels 0 [],
      na_values = (\<lambda>s. s \<in> set [''n/a'', ''NA'', ''NaN'', []]),
      parse_number = (\<lambda>s. if s = ''7'' then Some 7 else None)\<rparr>"

definition demo_sheet :: "int cell list list" where
  "demo_sheet =
     [[Text ''Frequency sweep'', NaN, NaN],
      [Text '' Angular Frequency (rad/s) '', Text ''Storage Modulus (Pa)'', Text ''Loss modulus''],
      [Text ''rad/s'', Text ''Pa'', Text ''Pa''],
      [Num 1, Num 1000, Text ''7''],
      [Num 10, Text ''n/a'', Num 5],
      [Num 20, Text ''over'', Num 4],
      [Num 100, Num 100000, Num 6]]"

definition demo_file :: "int cell list list list uploaded_file" where
  "demo_file = \<lparr>file_name = ''a.xlsx'', file_bytes = [[[Text ''cover'']], demo_sheet]\<rparr>"

definition corrupt_file :: "int cell list list list uploaded_file" where
  "corrupt_file = \<lparr>file_name = ''bad.xls'', file_bytes = []\<rparr>"

definition demo_columns :: "int label list" where
  "demo_columns =
     [TextLabel '' Angular Frequency (rad/s) '', TextLabel ''Storage Modulus (Pa)'',
      TextLabel ''Loss modulus'']"

definition demo_original :: "int table" where
  "demo_original =
     \<lparr>columns = demo_columns,
      rows = [[Text ''rad/s'', Text ''Pa'', Text ''Pa''],
              [Num 1, Num 1000, Text ''7''],
              [Num 10, NaN, Num 5],
              [Num 20, Text ''over'', Num 4],
              [Num 100, Num 100000, Num 6]]\<rparr>"

definition demo_processed :: "int table" where
  "demo_processed =
     \<lparr>columns = demo_columns,
      rows = [[Num 1, Num 1000, Num 7], [Num 100, Num 100000, Num 6]]\<rparr>"


definition no_storage :: "int table" where
  "no_storage =
     \<lparr>columns = [TextLabel ''Angular Frequency'', TextLabel ''Loss modulus''],
      rows = [[Num 1, Num 2]]\<rparr>"





section \<open>Properties of the string operations\<close>

lemma strip_idem: "strip (strip s) = strip s"
proof -
  define t where "t = dropWhile isspace s"
  define u where "u = dropWhile isspace (rev t)"
  have s: "strip s = rev u" by (simp add: strip_def t_def u_def)
  have "dropWhile isspace (rev u) = rev u"
  proof (cases "u = []")
    case True then show ?thesis by simp
  next
    case False
    then have "rev t \<noteq> []" by (auto simp: u_def)
    then have tne: "t \<noteq> []" by simp
    then have "\<not> isspace (hd t)" unfolding t_def by (rule hd_dropWhile)
    moreover have "suffix u (rev t)" unfolding u_def by (rule suffix_dropWhile)
    then have "last u = last (rev t)" using False by (auto simp: suffix_def)
    then have "hd (rev u) = hd t" using False tne by (simp add: hd_rev last_rev)
    ultimately show ?thesis using False by (simp add: dropWhile_eq_self_iff)
  qed
  moreover have "dropWhile isspace u = u" unfolding u_def by (rule dropWhile_idem)
  ultimately show ?thesis unfolding s by (simp add: strip_def)
qed

lemma isspace_lower_char: "isspace (lower_char c) = isspace c"
  by (auto simp: isspace_def lower_char_def Let_def)

lemma lower_char_idem: "lower_char (lower_char c) = lower_char c"
  by (auto simp: lower_char_def Let_def)

lemma lower_idem: "lower (lower s) = lower s"
  by (simp add: lower_def lower_char_idem)

lemma dropWhile_isspace_lower:
  "dropWhile isspace (lower s) = lower (dropWhile isspace s)"
  by (induction s) (simp_all add: lower_def isspace_lower_char)

lemma strip_lower: "strip (lower s) = lower (strip s)"
proof -
  have "rev (lower s) = lower (rev s)" for s
    by (simp add: lower_def rev_map)
  then show ?thesis
    by (metis strip_def dropWhile_isspace_lower)
qed

lemma strip_padded:
  assumes "\<forall>w \<in> set ws1 \<union> set ws2. isspace w"
  shows "strip (ws1 @ s @ ws2) = strip s"
proof -
  have 1: "dropWhile isspace (ws1 @ s @ ws2) = dropWhile isspace (s @ ws2)"
    using assms by (simp add: dropWhile_append2)
  show ?thesis
  proof (cases "\<forall>c \<in> set s. isspace c")
    case True
    then have "dropWhile isspace (s @ ws2) = []" "dropWhile isspace s = []"
      using assms by (simp_all add: dropWhile_eq_Nil_conv)
    then show ?thesis unfolding strip_def 1 by (simp only:)
  next
    case False
    then obtain c where "c \<in> set s" "\<not> isspace c" by blast
    then have "dropWhile isspace (s @ ws2) = dropWhile isspace s @ ws2"
      by (simp add: dropWhile_append1)
    moreover have "dropWhile isspace (rev ws2 @ t) = dropWhile isspace t" for t
      using assms by (intro dropWhile_append2) auto
    ultimately show ?thesis unfolding strip_def 1 by (simp only: rev_append)
  qed
qed

lemma normal_form_fixed:
  "lower (lower (strip c)) = lower (strip c)" "strip (lower (strip c)) = lower (strip c)"
  by (simp_all add: lower_idem strip_lower strip_idem)

section \<open>The plot function: one pass and whole runs\<close>


lemma normalized_labels_nontext:
  "NonText v \<in> set labels \<Longrightarrow> normalized_labels labels = Inl AttributeError"
proof (induction labels)
  case Nil
  then show ?case by simp
next
  case (Cons l labels)
  show ?case
  proof (cases l)
    case (TextLabel c)
    then have "NonText v \<in> set labels" using Cons.prems by auto
    then show ?thesis using Cons.IH TextLabel by simp
  next
    case (NonText w)
    then show ?thesis by simp
  qed
qed

lemma normalized_labels_Inr:
  "normalized_labels labels = Inr names \<Longrightarrow>
     \<exists>cols. labels = map TextLabel cols \<and> names = map (\<lambda>c. lower (strip c)) cols"
proof (induction labels arbitrary: names)
  case Nil
  then show ?case by simp
next
  case (Cons l labels)
  show ?case
  proof (cases l)
    case (TextLabel c)
    with Cons.prems obtain ns where ns: "normalized_labels labels = Inr ns"
      and names: "names = lower (strip c) # ns"
      by (auto split: sum.splits)
    from Cons.IH[OF ns] obtain cols where "labels = map TextLabel cols"
      "ns = map (\<lambda>c. lower (strip c)) cols" by blast
    then have "l # labels = map TextLabel (c # cols) \<and>
        names = map (\<lambda>c. lower (strip c)) (c # cols)"
      using TextLabel names by simp
    then show ?thesis by (rule exI[of _ "c # cols"])
  next
    case (NonText w)
    with Cons.prems show ?thesis by simp
  qed
qed


lemma normalize_columns_nontext:
  "NonText v \<in> set (columns df) \<Longrightarrow> normalize_columns df = Inl AttributeError"
  by (simp add: normalize_columns_def normalized_labels_nontext)















lemma raising_not_blocking: "raising s \<Longrightarrow> \<not> blocking x y s"
  by (simp add: raising_def blocking_def)

section \<open>Column resolution\<close>


text \<open>
  Claim C5, as amended. Resolution does not depend on the case of the target or of the
  labels, nor on white space around a label, and it is by containment: a label whose
  normalized form contains the lowercased target is enough for a match. The label
  \<open>" Angular Frequency (rad/s) "\<close> resolves against \<open>"Angular Frequency"\<close>. (The
  abbreviated label of the original claim does not: see the counterexample below.)
\<close>

theorem resolve_column_insensitive:
  "(lower target' = lower target \<longrightarrow>
      resolve_column cols target' = resolve_column cols target) \<and>
   (map lower cols' = map lower cols \<longrightarrow>
      resolve_column cols' target = resolve_column cols target) \<and>
   ((\<forall>w \<in> set ws1 \<union> set ws2. isspace w) \<longrightarrow>
      resolve_column (map (\<lambda>c. ws1 @ c @ ws2) cols) target = resolve_column cols target) \<and>
   (c \<in> set cols \<and> sublist (lower target) (lower (strip c)) \<longrightarrow>
      resolve_column cols target \<noteq> None) \<and>
   resolve_column ['' Angular Frequency (rad/s) ''] ''Angular Frequency'' =
     Some ''angular frequency (rad/s)''"
proof (intro conjI impI)
  assume "lower target' = lower target"
  then show "resolve_column cols target' = resolve_column cols target"
    by (simp add: resolve_column_def)
next
  assume a: "map lower cols' = map lower cols"
  have "map (\<lambda>c. lower (strip c)) cols' = map strip (map lower cols')"
    by (simp add: strip_lower)
  also have "\<dots> = map (\<lambda>c. lower (strip c)) cols"
    unfolding a by (simp add: strip_lower)
  finally show "resolve_column cols' target = resolve_column cols target"
    by (simp add: resolve_column_def)
next
  assume "\<forall>w \<in> set ws1 \<union> set ws2. isspace w"
  then show "resolve_column (map (\<lambda>c. ws1 @ c @ ws2) cols) target = resolve_column cols target"
    by (simp add: resolve_column_def o_def strip_padded)
next
  assume "c \<in> set cols \<and> sublist (lower target) (lower (strip c))"
  then show "resolve_column cols target \<noteq> None"
    by (auto simp: resolve_column_def next_match_def find_None_iff)
next
  show "resolve_column ['' Angular Frequency (rad/s) ''] ''Angular Frequency'' =
     Some ''angular frequency (rad/s)''"
    by code_simp
qed

text \<open>
  Claim C6, as amended. Matching works on normalized labels (stripped and lowercased)
  and on the lowercased target: normalizing the labels and lowercasing the target
  beforehand changes nothing, and a label that is returned is a normalized label of the
  table, fixed by \<open>lower\<close> and by \<open>strip\<close>, that contains the whole lowercased target,
  white space of the target included. The target is not stripped.
\<close>

theorem resolve_column_normal_forms:
  "resolve_column (map (\<lambda>c. lower (strip c)) cols) (lower target) =
     resolve_column cols target \<and>
   (resolve_column cols target = Some found \<longrightarrow>
      found \<in> (\<lambda>c. lower (strip c)) ` set cols \<and> lower found = found \<and>
      strip found = found \<and> sublist (lower target) found)"
proof (intro conjI impI)
  show "resolve_column (map (\<lambda>c. lower (strip c)) cols) (lower target) =
     resolve_column cols target"
    by (simp add: resolve_column_def o_def normal_form_fixed lower_idem)
next
  assume "resolve_column cols target = Some found"
  then have "found \<in> set (map (\<lambda>c. lower (strip c)) cols)" "sublist (lower target) found"
    by (auto simp: resolve_column_def next_match_def find_Some_iff)
  then show "found \<in> (\<lambda>c. lower (strip c)) ` set cols" "lower found = found"
    "strip found = found" "sublist (lower target) found"
    by (auto simp: normal_form_fixed)
qed

section \<open>The result of a plot call\<close>










section \<open>The loader and the upload loop\<close>

lemma to_numeric_not_Text: "to_numeric p c \<noteq> Text s"
  by (cases c) (auto split: option.splits)

lemma to_numeric_cases: "to_numeric p c = NaN \<or> (\<exists>x. to_numeric p c = Num x)"
  by (cases c) (auto split: option.splits)

lemma length_fit_row: "length (fit_row n r) = n"
  by (simp add: fit_row_def)

lemma index_of_append: "a \<notin> set xs \<Longrightarrow> index_of a (xs @ a # ys) = length xs"
  by (induction xs) auto

lemma count_one_distinct:
  "distinct xs \<Longrightarrow> a \<in> set xs \<Longrightarrow> length (filter (\<lambda>c. c = a) xs) = 1"
  by (induction xs) (auto simp: filter_empty_conv)

lemma distinct_count_one:
  "\<forall>a \<in> set xs. length (filter (\<lambda>c. c = a) xs) = 1 \<Longrightarrow> distinct xs"
proof (induction xs)
  case Nil
  show ?case by simp
next
  case (Cons x xs)
  have x: "filter (\<lambda>c. c = x) xs = []" using Cons.prems by simp
  then have nx: "x \<notin> set xs" by (auto simp: filter_empty_conv)
  have "\<forall>a \<in> set xs. length (filter (\<lambda>c. c = a) xs) = 1"
  proof
    fix a assume a: "a \<in> set xs"
    then have "a \<noteq> x" using nx by auto
    then show "length (filter (\<lambda>c. c = a) xs) = 1" using Cons.prems a by auto
  qed
  then show ?case using Cons.IH nx by simp
qed

lemma convert_step_row:
  assumes "k < length r"
  shows "take (Suc k) (r[k := f (r ! k)]) @ map f (drop (Suc k) (r[k := f (r ! k)])) =
         take k r @ map f (drop k r)"
proof -
  have "take (Suc k) (r[k := f (r ! k)]) = take k r @ [f (r ! k)]"
    using assms by (simp add: take_Suc_conv_app_nth)
  moreover have "drop (Suc k) (r[k := f (r ! k)]) = drop (Suc k) r"
    by (simp add: drop_update_cancel)
  moreover have "drop k r = r ! k # drop (Suc k) r"
    using assms by (simp add: Cons_nth_drop_Suc)
  ultimately show ?thesis by simp
qed

lemma convert_columns_columns:
  "convert_columns p cols df = Inr df' \<Longrightarrow> columns df' = columns df"
  by (induction cols arbitrary: df) (auto split: if_splits simp: Let_def)

lemma convert_columns_counts:
  "convert_columns p cols df = Inr df' \<Longrightarrow>
     \<forall>c \<in> set cols. length (filter (\<lambda>a. a = c) (columns df)) = 1"
proof (induction cols arbitrary: df)
  case Nil
  show ?case by simp
next
  case (Cons col cols)
  then show ?case by (fastforce split: if_splits simp: Let_def)
qed

lemma convert_columns_suffix:
  assumes "distinct (columns df)" "\<forall>r \<in> set (rows df). length r = length (columns df)"
    "columns df = done @ cols"
  shows "(convert_columns p cols df :: ('e, 'n) load_error + 'n table) =
     Inr (df\<lparr>rows := map (\<lambda>r. take (length done) r @
                                 map (to_numeric p) (drop (length done) r)) (rows df)\<rparr>)"
  using assms
proof (induction cols arbitrary: df "done")
  case Nil
  then have "map (\<lambda>r. take (length done) r @ map (to_numeric p) (drop (length done) r)) (rows df)
      = rows df"
    by (intro map_idI) simp
  then show ?case by simp
next
  case (Cons col cols)
  let ?k = "length done"
  let ?f = "to_numeric p"
  let ?df = "df\<lparr>rows := map (\<lambda>r. r[?k := ?f (r ! ?k)]) (rows df)\<rparr>"
  have cnt: "length (filter (\<lambda>c. c = col) (columns df)) = 1"
    using Cons.prems(1,3) by (intro count_one_distinct) auto
  have idx: "index_of col (columns df) = ?k"
    using Cons.prems(1,3) by (simp add: index_of_append)
  have step: "(convert_columns p (col # cols) df :: ('e, 'n) load_error + 'n table) =
      convert_columns p cols ?df"
    using cnt idx by (simp add: Let_def)
  have len: "\<forall>r \<in> set (rows df). ?k < length r" using Cons.prems(2,3) by simp
  have "(convert_columns p cols ?df :: ('e, 'n) load_error + 'n table) =
     Inr (?df\<lparr>rows := map (\<lambda>r. take (length (done @ [col])) r @
                    map ?f (drop (length (done @ [col])) r)) (rows ?df)\<rparr>)"
  proof (rule Cons.IH)
    show "distinct (columns ?df)" using Cons.prems(1) by simp
    show "\<forall>r \<in> set (rows ?df). length r = length (columns ?df)"
      using Cons.prems(2) by simp
    show "columns ?df = (done @ [col]) @ cols" using Cons.prems(3) by simp
  qed
  also have "\<dots> = Inr (df\<lparr>rows := map (\<lambda>r. take ?k r @ map ?f (drop ?k r)) (rows df)\<rparr>)"
  proof -
    have "map (\<lambda>r. take (length (done @ [col])) r @
                 map ?f (drop (length (done @ [col])) r)) (rows ?df) =
          map (\<lambda>r. take ?k r @ map ?f (drop ?k r)) (rows df)"
    proof -
      have "take (Suc ?k) (r[?k := ?f (r ! ?k)]) @ map ?f (drop (Suc ?k) (r[?k := ?f (r ! ?k)])) =
            take ?k r @ map ?f (drop ?k r)" if "r \<in> set (rows df)" for r
        using len that by (intro convert_step_row) blast
      then show ?thesis by (simp add: o_def del: drop_update_cancel take_update_cancel)
    qed
    then show ?thesis by simp
  qed
  finally show ?case using step by simp
qed

lemma convert_columns_all:
  assumes "(convert_columns p (columns df) df :: ('e, 'n) load_error + 'n table) = Inr df'"
    and "\<forall>r \<in> set (rows df). length r = length (columns df)"
  shows "df' = df\<lparr>rows := map (map (to_numeric p)) (rows df)\<rparr>"
proof -
  have "distinct (columns df)"
    using convert_columns_counts[OF assms(1)] by (rule distinct_count_one)
  then have "(convert_columns p (columns df) df :: ('e, 'n) load_error + 'n table) =
     Inr (df\<lparr>rows := map (\<lambda>r. take (length ([]::'n label list)) r @
                   map (to_numeric p) (drop (length ([]::'n label list)) r)) (rows df)\<rparr>)"
    using assms(2) by (intro convert_columns_suffix) simp_all
  then have "(convert_columns p (columns df) df :: ('e, 'n) load_error + 'n table) =
     Inr (df\<lparr>rows := map (map (to_numeric p)) (rows df)\<rparr>)" by simp
  then show ?thesis unfolding assms(1) by simp
qed

lemma convert_columns_succeeds:
  assumes "distinct (columns df)" "\<forall>r \<in> set (rows df). length r = length (columns df)"
  shows "(convert_columns p (columns df) df :: ('e, 'n) load_error + 'n table) =
     Inr (df\<lparr>rows := map (map (to_numeric p)) (rows df)\<rparr>)"
  using convert_columns_suffix[OF assms, of "[]" "columns df" p] by simp

lemma read_excel_rect:
  "read_excel P io engine s h = Inr df \<Longrightarrow> \<forall>r \<in> set (rows df). length r = length (columns df)"
  by (auto simp: read_excel_def Let_def length_fit_row split: sum.splits if_splits)

lemma filter_converted:
  "filter (\<lambda>r. NaN \<notin> set r) (map (map f) xs) =
   map (map f) (filter (\<lambda>r. \<forall>c \<in> set r. f c \<noteq> NaN) xs)"
proof -
  have "(NaN \<notin> set (map f r)) = (\<forall>c \<in> set r. f c \<noteq> NaN)" for r
    by (auto simp: image_iff)
  then show ?thesis by (simp add: filter_map o_def)
qed

lemma load_file_Inr:
  fixes P :: "('b, 'e, 'n) pandas"
  assumes "load_file P f = Inr (df_original, df_processed)"
  shows "read_excel P (file_bytes f) (engine_for (file_name f)) 1 1 = Inr df_original"
    and "columns df_processed = columns df_original"
    and "rows df_processed =
      map (map (to_numeric (parse_number P)))
        (filter (\<lambda>r. \<forall>c \<in> set r. to_numeric (parse_number P) c \<noteq> NaN)
           (drop 1 (rows df_original)))"
proof -
  let ?df = "df_original\<lparr>rows := drop 1 (rows df_original)\<rparr>"
  from assms show r: "read_excel P (file_bytes f) (engine_for (file_name f)) 1 1 = Inr df_original"
    by (auto simp: load_file_def Let_def split: sum.splits)
  from assms r obtain dn where
    c: "(convert_columns (parse_number P) (columns ?df) ?df :: ('e, 'n) load_error + 'n table) = Inr dn"
    and p: "df_processed = dropna dn"
    by (auto simp: load_file_def Let_def split: sum.splits)
  have rect: "\<forall>r \<in> set (rows ?df). length r = length (columns ?df)"
    using read_excel_rect[OF r] by (auto dest: in_set_dropD)
  have dn: "dn = ?df\<lparr>rows := map (map (to_numeric (parse_number P))) (rows ?df)\<rparr>"
    using c rect by (rule convert_columns_all)
  show "columns df_processed = columns df_original"
    by (simp add: p dn dropna_def)
  show "rows df_processed =
      map (map (to_numeric (parse_number P)))
        (filter (\<lambda>r. \<forall>c \<in> set r. to_numeric (parse_number P) c \<noteq> NaN)
           (drop 1 (rows df_original)))"
    by (simp add: p dn dropna_def filter_converted)
qed

text \<open>
  Claim C2. When a file loads, every row of the cleaned table has one cell per column and
  every cell is a number; the cleaned rows are exactly the rows after the units row in
  which every cell converts, converted, so a row with one cell that fails to convert is
  dropped as a whole.
\<close>

theorem cleaned_rows_all_numeric:
  fixes P :: "('b, 'e, 'n) pandas"
  assumes "load_file P f = Inr (df_original, df_processed)"
  shows "(\<forall>r \<in> set (rows df_processed).
            length r = length (columns df_processed) \<and> (\<forall>c \<in> set r. \<exists>x. c = Num x)) \<and>
         rows df_processed =
           map (map (to_numeric (parse_number P)))
             (filter (\<lambda>r. \<forall>c \<in> set r. to_numeric (parse_number P) c \<noteq> NaN)
                (drop 1 (rows df_original)))"
proof -
  note L = load_file_Inr[OF assms]
  have rect: "\<forall>r \<in> set (rows df_original). length r = length (columns df_original)"
    using read_excel_rect[OF L(1)] .
  have "length r = length (columns df_processed) \<and> (\<forall>c \<in> set r. \<exists>x. c = Num x)"
    if "r \<in> set (rows df_processed)" for r
  proof -
    from that obtain r0 where r0: "r0 \<in> set (drop 1 (rows df_original))"
      "\<forall>c \<in> set r0. to_numeric (parse_number P) c \<noteq> NaN"
      "r = map (to_numeric (parse_number P)) r0"
      unfolding L(3) by auto
    have "r0 \<in> set (rows df_original)" using r0(1) by (rule in_set_dropD)
    then have "length r = length (columns df_processed)" using rect r0(3) L(2) by simp
    moreover have "\<exists>x. c = Num x" if "c \<in> set r" for c
      using that r0(2,3) to_numeric_cases[of "parse_number P"] by auto
    ultimately show ?thesis by blast
  qed
  then show ?thesis using L(3) by blast
qed

text \<open>
  Claim C3. For a file whose workbook opens, has a sheet at position 1 and a row at
  position 1 in it (with labels that pandas keeps distinct), the loader succeeds: the
  labels come from row 1 of sheet 1, the data of \<open>df_original\<close> are the rows from
  position 2 on, and the rows that reach numeric cleaning are those from position 3 on,
  so the row at position 2 (the units row) is dropped whatever it holds.
\<close>

theorem loader_reads_second_sheet_second_row:
  fixes P :: "('b, 'e, 'n) pandas"
  assumes "open_workbook P (engine_for (file_name f)) (file_bytes f) = Inr wb"
    and "1 < length wb" and "1 < length (wb ! 1)"
    and "distinct (header_names P (wb ! 1 ! 1))"
  shows "\<exists>df_original df_processed.
      load_file P f = Inr (df_original, df_processed) \<and>
      columns df_original = header_names P (wb ! 1 ! 1) \<and>
      rows df_original =
        map (\<lambda>r. map (na_cell (na_values P))
                   (fit_row (length (header_names P (wb ! 1 ! 1))) r))
          (drop 2 (wb ! 1)) \<and>
      columns df_processed = header_names P (wb ! 1 ! 1) \<and>
      rows df_processed =
        filter (\<lambda>r. NaN \<notin> set r)
          (map (map (to_numeric (parse_number P)))
             (map (\<lambda>r. map (na_cell (na_values P))
                        (fit_row (length (header_names P (wb ! 1 ! 1))) r))
                (drop 3 (wb ! 1))))"
proof -
  let ?names = "header_names P (wb ! 1 ! 1)"
  let ?read = "\<lambda>r. map (na_cell (na_values P)) (fit_row (length ?names) r)"
  let ?orig = "\<lparr>columns = ?names, rows = map ?read (drop 2 (wb ! 1))\<rparr>"
  let ?df = "?orig\<lparr>rows := drop 1 (rows ?orig)\<rparr>"
  have r: "read_excel P (file_bytes f) (engine_for (file_name f)) 1 1 = Inr ?orig"
    using assms(1,2,3) by (auto simp: read_excel_def Let_def numeral_2_eq_2)
  have rect: "\<forall>r \<in> set (rows ?df). length r = length (columns ?df)"
    by (auto simp: length_fit_row dest!: in_set_dropD)
  have d: "distinct (columns ?df)" using assms(4) by simp
  have c: "(convert_columns (parse_number P) (columns ?df) ?df :: ('e, 'n) load_error + 'n table) =
      Inr (?df\<lparr>rows := map (map (to_numeric (parse_number P))) (rows ?df)\<rparr>)"
    using d rect by (rule convert_columns_succeeds)
  have "load_file P f =
      Inr (?orig, dropna (?df\<lparr>rows := map (map (to_numeric (parse_number P))) (rows ?df)\<rparr>))"
    unfolding load_file_def Let_def r using c by simp
  moreover have "drop (Suc 0) (map ?read (drop 2 (wb ! 1))) = map ?read (drop 3 (wb ! 1))"
    by (simp add: drop_map numeral_2_eq_2 numeral_3_eq_3)
  ultimately show ?thesis by (simp add: dropna_def)
qed

lemma upload_loop_append:
  "upload_loop P (xs @ ys) s = upload_loop P ys (upload_loop P xs s)"
  by (induction xs arbitrary: s) simp_all

lemma upload_loop_dataframes:
  "dataframes (upload_loop P fs s) = dataframes s @ loaded_samples P fs"
  by (induction fs arbitrary: s)
     (auto simp: loaded_samples_def process_file_def split: sum.splits)

lemma upload_loop_errors:
  "shown_errors (upload_loop P fs s) = shown_errors s @ load_failures P fs"
  by (induction fs arbitrary: s)
     (auto simp: load_failures_def process_file_def split: sum.splits)

lemma upload_loop_debug_length:
  "length (debug_info (upload_loop P fs s)) = length (debug_info s) + length (loaded_samples P fs)"
  by (induction fs arbitrary: s)
     (auto simp: loaded_samples_def process_file_def split: sum.splits)

lemma loaded_samples_append:
  "loaded_samples P (xs @ ys) = loaded_samples P xs @ loaded_samples P ys"
  by (simp add: loaded_samples_def)

lemma load_failures_append:
  "load_failures P (xs @ ys) = load_failures P xs @ load_failures P ys"
  by (simp add: load_failures_def)

lemma upload_loop_debug:
  "debug_info (upload_loop P fs s) = debug_info s @ debug_entries P fs"
  by (induction fs arbitrary: s)
     (auto simp: debug_entries_def process_file_def split: sum.splits)

lemma debug_entries_append:
  "debug_entries P (xs @ ys) = debug_entries P xs @ debug_entries P ys"
  by (simp add: debug_entries_def)

text \<open>
  Claim C8. When loading a file of the batch raises, the error is shown with that file's
  name, after the errors of the files before it and before those of the files after it;
  the samples and the debugging entries of the batch are those of the batch without the
  file, so every other file is processed as if the failing one were not there.
\<close>

theorem failed_file_reported_and_skipped:
  assumes "load_file P f = Inl e"
  shows "shown_errors (upload_loop P (before @ f # rest) s) =
           shown_errors (upload_loop P before s) @ (file_name f, e) # load_failures P rest \<and>
         dataframes (upload_loop P (before @ f # rest) s) =
           dataframes (upload_loop P (before @ rest) s) \<and>
         debug_info (upload_loop P (before @ f # rest) s) =
           debug_info (upload_loop P (before @ rest) s) \<and>
         dataframes (upload_loop P (before @ f # rest) s) =
           dataframes s @ loaded_samples P before @ loaded_samples P rest"
proof -
  let ?s = "upload_loop P before s"
  let ?s' = "?s\<lparr>shown_errors := shown_errors ?s @ [(file_name f, e)]\<rparr>"
  have step: "upload_loop P (before @ f # rest) s = upload_loop P rest ?s'"
    using assms by (simp add: upload_loop_append process_file_def)
  show ?thesis
    unfolding step
    by (simp add: upload_loop_errors upload_loop_dataframes upload_loop_append upload_loop_debug
        debug_entries_def)
qed

section \<open>The samples and the debugging panel after the plot calls\<close>






section \<open>The properties on the example data\<close>

text \<open>The example file, loaded step by step.\<close>

lemma demo_read:
  "read_excel demo_pandas (file_bytes demo_file) e 1 1 = Inr demo_original"
  by (simp add: read_excel_def demo_pandas_def demo_file_def demo_sheet_def demo_original_def
      demo_columns_def fit_row_def Let_def)

lemma demo_convert:
  "(convert_columns (parse_number demo_pandas) (columns demo_original)
      (demo_original\<lparr>rows := drop 1 (rows demo_original)\<rparr>)
        :: (string, int) load_error + int table) =
   Inr \<lparr>columns = columns demo_original,
        rows = [[Num 1, Num 1000, Num 7], [Num 10, NaN, Num 5], [Num 20, NaN, Num 4],
                [Num 100, Num 100000, Num 6]]\<rparr>"
  by (simp add: demo_pandas_def demo_original_def demo_columns_def Let_def)

lemma demo_load: "load_file demo_pandas demo_file = Inr (demo_original, demo_processed)"
  by (simp add: load_file_def demo_read demo_convert Let_def dropna_def del: One_nat_def)
     (simp add: demo_original_def demo_processed_def)

lemma corrupt_load:
  "load_file demo_pandas corrupt_file = Inl (ReaderError ''not a workbook'')"
  by (simp add: load_file_def read_excel_def demo_pandas_def corrupt_file_def Let_def)







lemma no_storage_touched:
  "touch (no_storage, n) =
     (\<lparr>columns = [TextLabel ''angular frequency'', TextLabel ''loss modulus''],
       rows = [[Num 1, Num 2]]\<rparr>, n)"
  by code_simp




text \<open>
  C2 on the example file: of the four rows after the units row, the one whose cell
  \<open>n/a\<close> was read as missing and the one whose cell \<open>over\<close> does not convert are
  dropped, and the text \<open>7\<close> is converted.
\<close>

theorem cleaned_rows_all_numeric_witness:
  "load_file demo_pandas demo_file = Inr (demo_original, demo_processed) \<and>
   rows demo_processed = [[Num 1, Num 1000, Num 7], [Num 100, Num 100000, Num 6]] \<and>
   rows demo_processed =
     map (map (to_numeric (parse_number demo_pandas)))
       (filter (\<lambda>r. \<forall>c \<in> set r. to_numeric (parse_number demo_pandas) c \<noteq> NaN)
          (drop 1 (rows demo_original)))"
  using demo_load cleaned_rows_all_numeric[OF demo_load]
  by (simp add: demo_processed_def)

text \<open>C3 on the example file.\<close>

theorem loader_reads_second_sheet_second_row_witness:
  "\<exists>df_original df_processed.
      load_file demo_pandas demo_file = Inr (df_original, df_processed) \<and>
      columns df_original = header_names demo_pandas (file_bytes demo_file ! 1 ! 1) \<and>
      rows df_original =
        map (\<lambda>r. map (na_cell (na_values demo_pandas))
                   (fit_row (length (header_names demo_pandas (file_bytes demo_file ! 1 ! 1))) r))
          (drop 2 (file_bytes demo_file ! 1)) \<and>
      columns df_processed = header_names demo_pandas (file_bytes demo_file ! 1 ! 1) \<and>
      rows df_processed =
        filter (\<lambda>r. NaN \<notin> set r)
          (map (map (to_numeric (parse_number demo_pandas)))
             (map (\<lambda>r. map (na_cell (na_values demo_pandas))
                        (fit_row (length (header_names demo_pandas
                           (file_bytes demo_file ! 1 ! 1))) r))
                (drop 3 (file_bytes demo_file ! 1))))"
proof -
  have 1: "open_workbook demo_pandas (engine_for (file_name demo_file)) (file_bytes demo_file) =
      Inr (file_bytes demo_file)"
    by (simp add: demo_pandas_def demo_file_def)
  have 2: "1 < length (file_bytes demo_file)" by (simp add: demo_file_def)
  have 3: "1 < length (file_bytes demo_file ! 1)" by (simp add: demo_file_def demo_sheet_def)
  have 4: "distinct (header_names demo_pandas (file_bytes demo_file ! 1 ! 1))"
    by (simp add: demo_file_def demo_sheet_def demo_pandas_def)
  show ?thesis by (rule loader_reads_second_sheet_second_row[OF 1 2 3 4])
qed



text \<open>
  C5 as stated fails: \<open>"angular frequency"\<close> is not contained in
  \<open>"ang. frequency (rad/s)"\<close>, so the abbreviated label does not resolve.
\<close>

theorem abbreviated_header_counterexample:
  "resolve_column ['' Ang. Frequency (rad/s) ''] ''Angular Frequency'' = None"
  by code_simp

text \<open>C5 as amended, on labels and targets that differ in case and in padding.\<close>

theorem resolve_column_insensitive_witness:
  "resolve_column ['' Angular Frequency (rad/s) ''] ''ANGULAR frequency'' =
     resolve_column ['' Angular Frequency (rad/s) ''] ''Angular Frequency'' \<and>
   resolve_column ['' ANGULAR FREQUENCY (rad/s) ''] ''Angular Frequency'' =
     resolve_column ['' Angular Frequency (rad/s) ''] ''Angular Frequency'' \<and>
   resolve_column (map (\<lambda>c. '' '' @ c @ ''  '') [''Angular Frequency (rad/s)''])
       ''Angular Frequency'' =
     resolve_column [''Angular Frequency (rad/s)''] ''Angular Frequency'' \<and>
   resolve_column ['' Angular Frequency (rad/s) ''] ''Angular Frequency'' \<noteq> None"
proof -
  have 1: "lower ''ANGULAR frequency'' = lower ''Angular Frequency''" by code_simp
  have 2: "map lower ['' ANGULAR FREQUENCY (rad/s) ''] = map lower ['' Angular Frequency (rad/s) '']"
    by code_simp
  have 3: "\<forall>w \<in> set '' '' \<union> set ''  ''. isspace w" by code_simp
  have 4: "'' Angular Frequency (rad/s) '' \<in> set ['' Angular Frequency (rad/s) ''] \<and>
      sublist (lower ''Angular Frequency'') (lower (strip '' Angular Frequency (rad/s) ''))"
    by code_simp
  show ?thesis
    using 1 2 3 4
      resolve_column_insensitive[of "''ANGULAR frequency''" "''Angular Frequency''"
        "['' Angular Frequency (rad/s) '']" "['' ANGULAR FREQUENCY (rad/s) '']"
        "'' ''" "''  ''" "'' Angular Frequency (rad/s) ''"]
      resolve_column_insensitive[of "''Angular Frequency''" "''Angular Frequency''"
        "[''Angular Frequency (rad/s)'']" "[''Angular Frequency (rad/s)'']"
        "'' ''" "''  ''" "''Angular Frequency (rad/s)''"]
    by blast
qed

text \<open>
  C6 as stated fails: a target with white space around it is not stripped, and finds
  nothing where the same target without the white space finds the column.
\<close>

theorem padded_target_counterexample:
  "resolve_column [''Angular Frequency''] '' Angular Frequency '' = None \<and>
   resolve_column [''Angular Frequency''] ''Angular Frequency'' = Some ''angular frequency''"
  by code_simp

text \<open>C6 as amended, on the padded label of the example.\<close>

theorem resolve_column_normal_forms_witness:
  "resolve_column ['' Angular Frequency (rad/s) ''] ''Angular Frequency'' =
     Some ''angular frequency (rad/s)'' \<and>
   lower ''angular frequency (rad/s)'' = ''angular frequency (rad/s)'' \<and>
   strip ''angular frequency (rad/s)'' = ''angular frequency (rad/s)'' \<and>
   sublist (lower ''Angular Frequency'') ''angular frequency (rad/s)''"
proof -
  have r: "resolve_column ['' Angular Frequency (rad/s) ''] ''Angular Frequency'' =
     Some ''angular frequency (rad/s)''"
    by code_simp
  show ?thesis
    using r resolve_column_normal_forms[of "['' Angular Frequency (rad/s) '']"
        "''Angular Frequency''" "''angular frequency (rad/s)''"]
    by blast
qed



text \<open>C8 on a batch of three files of which the second is no workbook.\<close>

theorem failed_file_reported_and_skipped_witness:
  "load_file demo_pandas corrupt_file = Inl (ReaderError ''not a workbook'') \<and>
   shown_errors (upload_loop demo_pandas ([demo_file] @ corrupt_file # [demo_file]) new_session) =
     shown_errors (upload_loop demo_pandas [demo_file] new_session) @
       (file_name corrupt_file, ReaderError ''not a workbook'') #
       load_failures demo_pandas [demo_file] \<and>
   dataframes (upload_loop demo_pandas ([demo_file] @ corrupt_file # [demo_file]) new_session) =
     dataframes (upload_loop demo_pandas ([demo_file] @ [demo_file]) new_session) \<and>
   dataframes (upload_loop demo_pandas ([demo_file] @ corrupt_file # [demo_file]) new_session) =
     [(demo_processed, ''a.xlsx''), (demo_processed, ''a.xlsx'')]"
proof -
  have l: "loaded_samples demo_pandas [demo_file] = [(demo_processed, ''a.xlsx'')]"
    by (simp add: loaded_samples_def demo_load) (simp add: demo_file_def)
  have n: "dataframes (new_session :: (string, int) session) = []"
    by (simp add: new_session_def)
  note T = failed_file_reported_and_skipped[OF corrupt_load, of "[demo_file]" "[demo_file]"
      new_session]
  have "dataframes (upload_loop demo_pandas ([demo_file] @ corrupt_file # [demo_file])
      new_session) = [] @ [(demo_processed, ''a.xlsx'')] @ [(demo_processed, ''a.xlsx'')]"
    using T unfolding l n by blast
  then show ?thesis using corrupt_load T by simp
qed










end
